theory Spec2Isabelle
  imports Complex_Main
begin

section \<open>Numbers, vectors and matrices\<close>

text \<open>
  The transformer computes on C++ \<^verbatim>\<open>double\<close> values. They are embedded as the real
  numbers: every arithmetic operation is the exact one, so rounding, infinities and NaN
  are outside the model. Statements that the specification qualifies with "up to
  numerical precision" are therefore exact equalities here.
\<close>

type_synonym double = real

text \<open>
  Modelled from the spec: the matrix library (GLM) is a third-party header library that is
  not part of the sources. The specification fixes its convention: 4x4 double-precision
  matrices, column-major, left multiplication \<open>result = M \<cdot> v\<close>. \<^verbatim>\<open>glm::dvec3\<close> and
  \<^verbatim>\<open>glm::dvec4\<close> are plain structs of coordinates; \<^verbatim>\<open>glm::dmat4\<close> is an array of four
  columns, \<^verbatim>\<open>m[i]\<close> being column \<open>i\<close>.
\<close>

datatype dvec3 = Vec3 (x3: double) (y3: double) (z3: double)

datatype dvec4 = Vec4 (x4: double) (y4: double) (z4: double) (w4: double)

record dmat4 =
  col0 :: dvec4
  col1 :: dvec4
  col2 :: dvec4
  col3 :: dvec4

text \<open>\<^verbatim>\<open>glm::dvec4(v, w)\<close>: a point extended by its homogeneous coordinate.\<close>

definition vec4_of3 :: "dvec3 \<Rightarrow> double \<Rightarrow> dvec4" where
  "vec4_of3 v w = Vec4 (x3 v) (y3 v) (z3 v) w"

text \<open>The conversion \<^verbatim>\<open>glm::dvec3(v4)\<close>, which drops the fourth coordinate.\<close>

definition vec3_of4 :: "dvec4 \<Rightarrow> dvec3" where
  "vec3_of4 v = Vec3 (x4 v) (y4 v) (z4 v)"

definition vec4_scale :: "dvec4 \<Rightarrow> double \<Rightarrow> dvec4" where
  "vec4_scale v s = Vec4 (x4 v * s) (y4 v * s) (z4 v * s) (w4 v * s)"

definition vec4_add :: "dvec4 \<Rightarrow> dvec4 \<Rightarrow> dvec4" where
  "vec4_add a b = Vec4 (x4 a + x4 b) (y4 a + y4 b) (z4 a + z4 b) (w4 a + w4 b)"

definition vec4_sub :: "dvec4 \<Rightarrow> dvec4 \<Rightarrow> dvec4" where
  "vec4_sub a b = Vec4 (x4 a - x4 b) (y4 a - y4 b) (z4 a - z4 b) (w4 a - w4 b)"

text \<open>Componentwise product \<^verbatim>\<open>a * b\<close> of two vectors.\<close>

definition vec4_mul :: "dvec4 \<Rightarrow> dvec4 \<Rightarrow> dvec4" where
  "vec4_mul a b = Vec4 (x4 a * x4 b) (y4 a * y4 b) (z4 a * z4 b) (w4 a * w4 b)"

text \<open>\<^verbatim>\<open>glm::dmat4(s)\<close>: the diagonal matrix, the identity for \<open>s = 1\<close>.\<close>

definition dmat4_diag :: "double \<Rightarrow> dmat4" where
  "dmat4_diag s =
     \<lparr>col0 = Vec4 s 0 0 0, col1 = Vec4 0 s 0 0, col2 = Vec4 0 0 s 0, col3 = Vec4 0 0 0 s\<rparr>"

text \<open>
  The constructor from sixteen scalars fills the matrix column by column: the first four
  arguments are column 0, the next four column 1, and so on.
\<close>

definition dmat4_of_scalars ::
  "double \<Rightarrow> double \<Rightarrow> double \<Rightarrow> double \<Rightarrow> double \<Rightarrow> double \<Rightarrow> double \<Rightarrow> double \<Rightarrow>
   double \<Rightarrow> double \<Rightarrow> double \<Rightarrow> double \<Rightarrow> double \<Rightarrow> double \<Rightarrow> double \<Rightarrow> double \<Rightarrow> dmat4" where
  "dmat4_of_scalars a0 b0 c0 d0 a1 b1 c1 d1 a2 b2 c2 d2 a3 b3 c3 d3 =
     \<lparr>col0 = Vec4 a0 b0 c0 d0, col1 = Vec4 a1 b1 c1 d1,
      col2 = Vec4 a2 b2 c2 d2, col3 = Vec4 a3 b3 c3 d3\<rparr>"

text \<open>
  \<^verbatim>\<open>M * v\<close>: the linear combination of the columns of \<open>M\<close> with the coordinates of \<open>v\<close>,
  added pairwise as the library does.
\<close>

definition mat_mul_vec :: "dmat4 \<Rightarrow> dvec4 \<Rightarrow> dvec4" where
  "mat_mul_vec m v =
     vec4_add (vec4_add (vec4_scale (col0 m) (x4 v)) (vec4_scale (col1 m) (y4 v)))
              (vec4_add (vec4_scale (col2 m) (z4 v)) (vec4_scale (col3 m) (w4 v)))"

text \<open>\<^verbatim>\<open>A * B\<close>: column \<open>i\<close> of the product is \<open>A\<close> applied to column \<open>i\<close> of \<open>B\<close>.\<close>

definition mat_mul :: "dmat4 \<Rightarrow> dmat4 \<Rightarrow> dmat4" where
  "mat_mul a b =
     \<lparr>col0 = mat_mul_vec a (col0 b), col1 = mat_mul_vec a (col1 b),
      col2 = mat_mul_vec a (col2 b), col3 = mat_mul_vec a (col3 b)\<rparr>"

text \<open>
  Modelled from the spec: \<^verbatim>\<open>glm::inverse\<close> is the "4x4 inversion" of the matrix library,
  missing from the sources like the rest of GLM. It is written out as the library computes
  it: the 2x2 sub-determinants \<open>Coef\<close>, the signed cofactor columns \<open>Inv\<close>, the determinant
  as the dot product of the first column with the first row of cofactors, and the scaling
  by its reciprocal.
\<close>

definition glm_inverse :: "dmat4 \<Rightarrow> dmat4" where
  "glm_inverse m =
    (let m00 = x4 (col0 m); m01 = y4 (col0 m); m02 = z4 (col0 m); m03 = w4 (col0 m);
         m10 = x4 (col1 m); m11 = y4 (col1 m); m12 = z4 (col1 m); m13 = w4 (col1 m);
         m20 = x4 (col2 m); m21 = y4 (col2 m); m22 = z4 (col2 m); m23 = w4 (col2 m);
         m30 = x4 (col3 m); m31 = y4 (col3 m); m32 = z4 (col3 m); m33 = w4 (col3 m);
         Coef00 = m22 * m33 - m32 * m23;
         Coef02 = m12 * m33 - m32 * m13;
         Coef03 = m12 * m23 - m22 * m13;
         Coef04 = m21 * m33 - m31 * m23;
         Coef06 = m11 * m33 - m31 * m13;
         Coef07 = m11 * m23 - m21 * m13;
         Coef08 = m21 * m32 - m31 * m22;
         Coef10 = m11 * m32 - m31 * m12;
         Coef11 = m11 * m22 - m21 * m12;
         Coef12 = m20 * m33 - m30 * m23;
         Coef14 = m10 * m33 - m30 * m13;
         Coef15 = m10 * m23 - m20 * m13;
         Coef16 = m20 * m32 - m30 * m22;
         Coef18 = m10 * m32 - m30 * m12;
         Coef19 = m10 * m22 - m20 * m12;
         Coef20 = m20 * m31 - m30 * m21;
         Coef22 = m10 * m31 - m30 * m11;
         Coef23 = m10 * m21 - m20 * m11;
         Fac0 = Vec4 Coef00 Coef00 Coef02 Coef03;
         Fac1 = Vec4 Coef04 Coef04 Coef06 Coef07;
         Fac2 = Vec4 Coef08 Coef08 Coef10 Coef11;
         Fac3 = Vec4 Coef12 Coef12 Coef14 Coef15;
         Fac4 = Vec4 Coef16 Coef16 Coef18 Coef19;
         Fac5 = Vec4 Coef20 Coef20 Coef22 Coef23;
         Vec0 = Vec4 m10 m00 m00 m00;
         Vec1 = Vec4 m11 m01 m01 m01;
         Vec2 = Vec4 m12 m02 m02 m02;
         Vec3' = Vec4 m13 m03 m03 m03;
         Inv0 = vec4_add (vec4_sub (vec4_mul Vec1 Fac0) (vec4_mul Vec2 Fac1)) (vec4_mul Vec3' Fac2);
         Inv1 = vec4_add (vec4_sub (vec4_mul Vec0 Fac0) (vec4_mul Vec2 Fac3)) (vec4_mul Vec3' Fac4);
         Inv2 = vec4_add (vec4_sub (vec4_mul Vec0 Fac1) (vec4_mul Vec1 Fac3)) (vec4_mul Vec3' Fac5);
         Inv3 = vec4_add (vec4_sub (vec4_mul Vec0 Fac2) (vec4_mul Vec1 Fac4)) (vec4_mul Vec2 Fac5);
         SignA = Vec4 1 (- 1) 1 (- 1);
         SignB = Vec4 (- 1) 1 (- 1) 1;
         Inverse = \<lparr>col0 = vec4_mul Inv0 SignA, col1 = vec4_mul Inv1 SignB,
                    col2 = vec4_mul Inv2 SignA, col3 = vec4_mul Inv3 SignB\<rparr>;
         Row0 = Vec4 (x4 (col0 Inverse)) (x4 (col1 Inverse)) (x4 (col2 Inverse)) (x4 (col3 Inverse));
         Dot0 = vec4_mul (col0 m) Row0;
         Dot1 = (x4 Dot0 + y4 Dot0) + (z4 Dot0 + w4 Dot0);
         OneOverDeterminant = 1 / Dot1
     in \<lparr>col0 = vec4_scale (col0 Inverse) OneOverDeterminant,
         col1 = vec4_scale (col1 Inverse) OneOverDeterminant,
         col2 = vec4_scale (col2 Inverse) OneOverDeterminant,
         col3 = vec4_scale (col3 Inverse) OneOverDeterminant\<rparr>)"


section \<open>The coordinate system descriptor\<close>

datatype CoordinateType =
  CoordinateType_Unknown
| CoordinateType_LocalCartesian
| CoordinateType_ENU
| CoordinateType_EPSG
| CoordinateType_WKT

datatype UpAxis = Y_UP | Z_UP

datatype Handedness = RightHanded | LeftHanded

datatype VerticalDatum = Ellipsoidal | Orthometric | Unknown

record GeoReference =
  lon :: double
  lat :: double
  height :: double
  datum :: VerticalDatum

definition FromDegrees :: "double \<Rightarrow> double \<Rightarrow> double \<Rightarrow> VerticalDatum \<Rightarrow> GeoReference" where
  "FromDegrees lo la h d = \<lparr>lon = lo, lat = la, height = h, datum = d\<rparr>"

record LocalCartesianParams =
  up_axis :: UpAxis
  handedness :: Handedness

record ENUParams =
  origin_lon :: double
  origin_lat :: double
  origin_height :: double
  offset_x :: double
  offset_y :: double
  offset_z :: double

record EPSGParams =
  code :: int
  epsg_origin_x :: double
  epsg_origin_y :: double
  epsg_origin_z :: double
  epsg_vertical_datum :: VerticalDatum

record WKTParams =
  wkt :: string
  wkt_origin_x :: double
  wkt_origin_y :: double
  wkt_origin_z :: double
  wkt_vertical_datum :: VerticalDatum

text \<open>
  The class keeps a tag \<^verbatim>\<open>type_\<close> and a variant \<^verbatim>\<open>params_\<close>. Both are private and
  written only by the default constructor and the four factories, which set them together;
  \<^verbatim>\<open>SetVerticalDatum\<close> changes a field inside the variant and not its alternative. The
  reachable values are therefore exactly those of a sum with one alternative per tag.
\<close>

datatype CoordinateSystem =
  CS_Unknown
| CS_LocalCartesian LocalCartesianParams
| CS_ENU ENUParams
| CS_EPSG EPSGParams
| CS_WKT WKTParams

definition CoordinateSystem_default :: CoordinateSystem where
  "CoordinateSystem_default = CS_Unknown"

definition LocalCartesian :: "UpAxis \<Rightarrow> Handedness \<Rightarrow> CoordinateSystem" where
  "LocalCartesian up h = CS_LocalCartesian \<lparr>up_axis = up, handedness = h\<rparr>"

definition ENU ::
  "double \<Rightarrow> double \<Rightarrow> double \<Rightarrow> double \<Rightarrow> double \<Rightarrow> double \<Rightarrow> CoordinateSystem" where
  "ENU lo la h ox oy oz =
     CS_ENU \<lparr>origin_lon = lo, origin_lat = la, origin_height = h,
             offset_x = ox, offset_y = oy, offset_z = oz\<rparr>"

definition EPSG ::
  "int \<Rightarrow> double \<Rightarrow> double \<Rightarrow> double \<Rightarrow> VerticalDatum \<Rightarrow> CoordinateSystem" where
  "EPSG c ox oy oz vd =
     CS_EPSG \<lparr>code = c, epsg_origin_x = ox, epsg_origin_y = oy, epsg_origin_z = oz,
              epsg_vertical_datum = vd\<rparr>"

definition WKT ::
  "string \<Rightarrow> double \<Rightarrow> double \<Rightarrow> double \<Rightarrow> VerticalDatum \<Rightarrow> CoordinateSystem" where
  "WKT s ox oy oz vd =
     CS_WKT \<lparr>wkt = s, wkt_origin_x = ox, wkt_origin_y = oy, wkt_origin_z = oz,
             wkt_vertical_datum = vd\<rparr>"

fun Type :: "CoordinateSystem \<Rightarrow> CoordinateType" where
  "Type CS_Unknown = CoordinateType_Unknown"
| "Type (CS_LocalCartesian p) = CoordinateType_LocalCartesian"
| "Type (CS_ENU p) = CoordinateType_ENU"
| "Type (CS_EPSG p) = CoordinateType_EPSG"
| "Type (CS_WKT p) = CoordinateType_WKT"

definition IsValid :: "CoordinateSystem \<Rightarrow> bool" where
  "IsValid cs = (Type cs \<noteq> CoordinateType_Unknown)"

definition NeedsOGRTransform :: "CoordinateSystem \<Rightarrow> bool" where
  "NeedsOGRTransform cs = (Type cs = CoordinateType_EPSG \<or> Type cs = CoordinateType_WKT)"

definition HasBuiltinGeoReference :: "CoordinateSystem \<Rightarrow> bool" where
  "HasBuiltinGeoReference cs = (Type cs = CoordinateType_ENU)"

fun GetSourceOrigin :: "CoordinateSystem \<Rightarrow> double \<times> double \<times> double" where
  "GetSourceOrigin (CS_ENU p) = (offset_x p, offset_y p, offset_z p)"
| "GetSourceOrigin (CS_EPSG p) = (epsg_origin_x p, epsg_origin_y p, epsg_origin_z p)"
| "GetSourceOrigin (CS_WKT p) = (wkt_origin_x p, wkt_origin_y p, wkt_origin_z p)"
| "GetSourceOrigin (CS_LocalCartesian p) = (0, 0, 0)"
| "GetSourceOrigin CS_Unknown = (0, 0, 0)"

fun GetENUParams :: "CoordinateSystem \<Rightarrow> ENUParams option" where
  "GetENUParams (CS_ENU p) = Some p"
| "GetENUParams _ = None"

fun GetEPSGCode :: "CoordinateSystem \<Rightarrow> int option" where
  "GetEPSGCode (CS_EPSG p) = Some (code p)"
| "GetEPSGCode _ = None"

fun GetWKTString :: "CoordinateSystem \<Rightarrow> string option" where
  "GetWKTString (CS_WKT p) = Some (wkt p)"
| "GetWKTString _ = None"

fun GetVerticalDatum :: "CoordinateSystem \<Rightarrow> VerticalDatum" where
  "GetVerticalDatum (CS_EPSG p) = epsg_vertical_datum p"
| "GetVerticalDatum (CS_WKT p) = wkt_vertical_datum p"
| "GetVerticalDatum (CS_ENU p) = Ellipsoidal"
| "GetVerticalDatum (CS_LocalCartesian p) = Ellipsoidal"
| "GetVerticalDatum CS_Unknown = Unknown"

fun GetUpAxis :: "CoordinateSystem \<Rightarrow> UpAxis" where
  "GetUpAxis (CS_LocalCartesian p) = up_axis p"
| "GetUpAxis _ = Y_UP"


section \<open>External collaborators\<close>

text \<open>
  Modelled from the spec: the projection library (OGR) and the geoid library (GeographicLib,
  which the process-wide calculator of \<^verbatim>\<open>GeoidHeight\<close> wraps) are third-party code that
  is not part of the sources. The transformer reaches them through three operations, which
  are parameters of the model: whether the process-wide geoid calculator is initialized,
  its conversion of an orthometric height at \<open>(lat, lon)\<close> to an ellipsoidal one (the height
  plus the undulation the library finds there, or the height itself when the lookup
  fails), and the creation of a projection handle between two spatial references, which
  may fail. A handle maps a point to a point.
\<close>

datatype GeoidModel = GeoidModel_None | EGM84 | EGM96 | EGM2008

datatype OGRSpatialReference = SRS_empty | SRS_EPSG int | SRS_WKT string

type_synonym OGRCoordinateTransformation = "dvec3 \<Rightarrow> dvec3"

record Services =
  IsInitialized :: bool
  ConvertOrthometricToEllipsoidal :: "double \<Rightarrow> double \<Rightarrow> double \<Rightarrow> double"
  OGRCreateCoordinateTransformation ::
    "OGRSpatialReference \<Rightarrow> OGRSpatialReference \<Rightarrow> OGRCoordinateTransformation option"

text \<open>The lines the transformer prints on the error stream, in the order of printing.\<close>

datatype log_line =
  Log_OGR_created
| Log_OGR_failed
| Log_OGR_result double double double
| Log_Initialized double double double
| Log_Geoid_correction double double
| Warn_ToWGS84_without_geo_reference
| Warn_ToECEF_without_geo_reference
| Warn_ToLocalENU_without_geo_reference


section \<open>The coordinate transformer\<close>

datatype TransformMode = TransformMode_None | WithGeoReference

record GeoidConfig =
  enabled :: bool
  model :: GeoidModel
  data_path :: string

text \<open>The member initialisers: disabled, EGM96, empty path.\<close>

definition GeoidConfig_default :: GeoidConfig where
  "GeoidConfig_default = \<lparr>enabled = False, model = EGM96, data_path = []\<rparr>"

definition GeoidConfig_Disabled :: GeoidConfig where
  "GeoidConfig_Disabled = GeoidConfig_default\<lparr>enabled := False\<rparr>"


definition GeoidConfig_EGM2008 :: "string \<Rightarrow> GeoidConfig" where
  "GeoidConfig_EGM2008 path = \<lparr>enabled = True, model = EGM2008, data_path = path\<rparr>"

record CoordinateTransformer =
  source_cs :: CoordinateSystem
  mode :: TransformMode
  geo_origin_lon :: double
  geo_origin_lat :: double
  geo_origin_height :: double
  enu_to_ecef :: dmat4
  ecef_to_enu :: dmat4
  axis_transform :: dmat4
  ogr_transform :: "OGRCoordinateTransformation option"
  geoid_config :: GeoidConfig

text \<open>The members keep the names of the class, without the trailing underscore (which the
  logic reserves). This is the state the default member initialisers give before a
  constructor body runs.\<close>

definition members_init ::
  "CoordinateSystem \<Rightarrow> TransformMode \<Rightarrow> GeoidConfig \<Rightarrow> CoordinateTransformer" where
  "members_init cs m gc =
     \<lparr>source_cs = cs, mode = m,
      geo_origin_lon = 0, geo_origin_lat = 0, geo_origin_height = 0,
      enu_to_ecef = dmat4_diag 1, ecef_to_enu = dmat4_diag 1, axis_transform = dmat4_diag 1,
      ogr_transform = None, geoid_config = gc\<rparr>"

definition HasGeoReference :: "CoordinateTransformer \<Rightarrow> bool" where
  "HasGeoReference t = (mode t = WithGeoReference)"

definition EnableGeoidCorrection :: "bool \<Rightarrow> CoordinateTransformer \<Rightarrow> CoordinateTransformer" where
  "EnableGeoidCorrection b t = t\<lparr>geoid_config := (geoid_config t)\<lparr>enabled := b\<rparr>\<rparr>"

subsection \<open>WGS84 constants and the static helpers\<close>

definition WGS84_A :: double where
  "WGS84_A = 6378137.0"

definition WGS84_F :: double where
  "WGS84_F = 1.0 / 298.257223563"

definition WGS84_E2 :: double where
  "WGS84_E2 = WGS84_F * (2.0 - WGS84_F)"

definition CalcEnuToEcefMatrix :: "double \<Rightarrow> double \<Rightarrow> double \<Rightarrow> dmat4" where
  "CalcEnuToEcefMatrix lon_deg lat_deg height' =
    (let pi' = arccos (- 1.0);
         lon' = lon_deg * pi' / 180.0;
         phi = lat_deg * pi' / 180.0;
         sinPhi = sin phi; cosPhi = cos phi;
         sinLon = sin lon'; cosLon = cos lon';
         N = WGS84_A / sqrt (1.0 - WGS84_E2 * sinPhi * sinPhi);
         x0 = (N + height') * cosPhi * cosLon;
         y0 = (N + height') * cosPhi * sinLon;
         z0 = (N * (1.0 - WGS84_E2) + height') * sinPhi;
         east = Vec3 (- sinLon) cosLon 0.0;
         north = Vec3 (- sinPhi * cosLon) (- sinPhi * sinLon) cosPhi;
         up = Vec3 (cosPhi * cosLon) (cosPhi * sinLon) sinPhi;
         T = dmat4_diag 1.0;
         T = T\<lparr>col0 := vec4_of3 east 0.0\<rparr>;
         T = T\<lparr>col1 := vec4_of3 north 0.0\<rparr>;
         T = T\<lparr>col2 := vec4_of3 up 0.0\<rparr>;
         T = T\<lparr>col3 := Vec4 x0 y0 z0 1.0\<rparr>
     in T)"

definition CartographicToEcef :: "double \<Rightarrow> double \<Rightarrow> double \<Rightarrow> dvec3" where
  "CartographicToEcef lon_deg lat_deg height' =
    (let pi' = arccos (- 1.0);
         lon' = lon_deg * pi' / 180.0;
         phi = lat_deg * pi' / 180.0;
         sinPhi = sin phi; cosPhi = cos phi;
         sinLon = sin lon'; cosLon = cos lon';
         N = WGS84_A / sqrt (1.0 - WGS84_E2 * sinPhi * sinPhi);
         x = (N + height') * cosPhi * cosLon;
         y = (N + height') * cosPhi * sinLon;
         z = (N * (1.0 - WGS84_E2) + height') * sinPhi
     in Vec3 x y z)"

definition GetAxisTransformMatrix :: "UpAxis \<Rightarrow> UpAxis \<Rightarrow> dmat4" where
  "GetAxisTransformMatrix from to =
    (if from = to then dmat4_diag 1.0
     else if from = Z_UP \<and> to = Y_UP then
       dmat4_of_scalars
         1 0 0 0
         0 0 1 0
         0 (- 1) 0 0
         0 0 0 1
     else
       dmat4_of_scalars
         1 0 0 0
         0 0 (- 1) 0
         0 1 0 0
         0 0 0 1)"

subsection \<open>Geoid policy\<close>

definition ShouldApplyGeoidCorrection :: "Services \<Rightarrow> CoordinateTransformer \<Rightarrow> bool" where
  "ShouldApplyGeoidCorrection sv t =
    (if \<not> enabled (geoid_config t) then False
     else if \<not> IsInitialized sv then False
     else (case Type (source_cs t) of
             CoordinateType_EPSG \<Rightarrow>
               (let datum' = GetVerticalDatum (source_cs t)
                in datum' = Orthometric \<or> datum' = Unknown)
           | CoordinateType_WKT \<Rightarrow>
               (let datum' = GetVerticalDatum (source_cs t)
                in datum' = Orthometric \<or> datum' = Unknown)
           | CoordinateType_ENU \<Rightarrow> False
           | CoordinateType_LocalCartesian \<Rightarrow> False
           | _ \<Rightarrow> False))"

definition ApplyGeoidCorrection ::
  "Services \<Rightarrow> CoordinateTransformer \<Rightarrow> double \<Rightarrow> double \<Rightarrow> double \<Rightarrow> log_line list \<times> double" where
  "ApplyGeoidCorrection sv t lat' lon' height' =
    (if \<not> ShouldApplyGeoidCorrection sv t then ([], height')
     else
       (let corrected = ConvertOrthometricToEllipsoidal sv lat' lon' height'
        in ([Log_Geoid_correction height' corrected], corrected)))"

subsection \<open>Construction\<close>

text \<open>
  Member functions that write members take the object and return it updated, together
  with the lines they print.
\<close>

definition CreateOGRTransform ::
  "Services \<Rightarrow> CoordinateTransformer \<Rightarrow> log_line list \<times> CoordinateTransformer" where
  "CreateOGRTransform sv t =
    (let outRs = SRS_EPSG 4326;
         inRs = SRS_empty;
         inRs = (if Type (source_cs t) = CoordinateType_EPSG then
                   (case GetEPSGCode (source_cs t) of Some c \<Rightarrow> SRS_EPSG c | None \<Rightarrow> inRs)
                 else if Type (source_cs t) = CoordinateType_WKT then
                   (case GetWKTString (source_cs t) of Some w \<Rightarrow> SRS_WKT w | None \<Rightarrow> inRs)
                 else inRs);
         poCT = OGRCreateCoordinateTransformation sv inRs outRs
     in case poCT of
          Some ct \<Rightarrow> ([Log_OGR_created], t\<lparr>ogr_transform := Some ct\<rparr>)
        | None \<Rightarrow> ([Log_OGR_failed], t))"

definition InitializeWithGeoRef ::
  "Services \<Rightarrow> GeoReference \<Rightarrow> CoordinateTransformer \<Rightarrow> log_line list \<times> CoordinateTransformer" where
  "InitializeWithGeoRef sv geo_ref t =
    (case
       (if Type (source_cs t) = CoordinateType_ENU then
          (case GetENUParams (source_cs t) of
             Some enu_params \<Rightarrow>
               ([], t\<lparr>geo_origin_lon := origin_lon enu_params,
                       geo_origin_lat := origin_lat enu_params,
                       geo_origin_height := origin_height enu_params\<rparr>)
           | None \<Rightarrow> ([], t))
        else if NeedsOGRTransform (source_cs t) then
          (case CreateOGRTransform sv t of (log_create, t) \<Rightarrow>
            (case
               (if lon geo_ref \<noteq> 0.0 \<or> lat geo_ref \<noteq> 0.0 then
                  (let t = t\<lparr>geo_origin_lon := lon geo_ref,
                              geo_origin_lat := lat geo_ref,
                              geo_origin_height := height geo_ref\<rparr>
                   in if enabled (geoid_config t) \<and> IsInitialized sv then
                        (case ApplyGeoidCorrection sv t
                                (geo_origin_lat t) (geo_origin_lon t) (geo_origin_height t) of
                           (log_geoid, h) \<Rightarrow> (log_geoid, t\<lparr>geo_origin_height := h\<rparr>))
                      else ([], t))
                else
                  (case GetSourceOrigin (source_cs t) of (origin_x, origin_y, origin_z) \<Rightarrow>
                    (let origin = Vec3 origin_x origin_y origin_z;
                         origin = (case ogr_transform t of
                                     Some ct \<Rightarrow> ct origin
                                   | None \<Rightarrow> origin);
                         t = t\<lparr>geo_origin_lon := x3 origin,
                                geo_origin_lat := y3 origin,
                                geo_origin_height := z3 origin\<rparr>
                     in case ApplyGeoidCorrection sv t
                               (geo_origin_lat t) (geo_origin_lon t) (geo_origin_height t) of
                          (log_geoid, h) \<Rightarrow> (log_geoid, t\<lparr>geo_origin_height := h\<rparr>))))
             of (log_origin, t) \<Rightarrow>
               (log_create @ log_origin @
                  [Log_OGR_result (geo_origin_lon t) (geo_origin_lat t) (geo_origin_height t)],
                t)))
        else
          ([], t\<lparr>geo_origin_lon := lon geo_ref,
                  geo_origin_lat := lat geo_ref,
                  geo_origin_height := height geo_ref\<rparr>))
     of (log_branch, t) \<Rightarrow>
       (let t = t\<lparr>enu_to_ecef :=
                     CalcEnuToEcefMatrix (geo_origin_lon t) (geo_origin_lat t) (geo_origin_height t)\<rparr>;
            t = t\<lparr>ecef_to_enu := glm_inverse (enu_to_ecef t)\<rparr>;
            t = t\<lparr>axis_transform := GetAxisTransformMatrix (GetUpAxis (source_cs t)) Y_UP\<rparr>
        in (log_branch @
              [Log_Initialized (geo_origin_lon t) (geo_origin_lat t) (geo_origin_height t)],
            t)))"

text \<open>
  The three constructors. The first leaves every member but the coordinate system and the
  mode at its initialiser and prints nothing; the other two run \<^verbatim>\<open>InitializeWithGeoRef\<close>.
\<close>

definition CoordinateTransformer1 :: "CoordinateSystem \<Rightarrow> CoordinateTransformer" where
  "CoordinateTransformer1 cs = members_init cs TransformMode_None GeoidConfig_default"

definition CoordinateTransformer2 ::
  "Services \<Rightarrow> CoordinateSystem \<Rightarrow> GeoReference \<Rightarrow> log_line list \<times> CoordinateTransformer" where
  "CoordinateTransformer2 sv cs geo_ref =
     InitializeWithGeoRef sv geo_ref (members_init cs WithGeoReference GeoidConfig_Disabled)"

definition CoordinateTransformer3 ::
  "Services \<Rightarrow> CoordinateSystem \<Rightarrow> GeoReference \<Rightarrow> GeoidConfig \<Rightarrow>
   log_line list \<times> CoordinateTransformer" where
  "CoordinateTransformer3 sv cs geo_ref gc =
     InitializeWithGeoRef sv geo_ref (members_init cs WithGeoReference gc)"

subsection \<open>Point transformations\<close>

text \<open>Adding an offset to the three coordinates of a point, one after the other.\<close>

definition add_xyz :: "dvec3 \<Rightarrow> double \<Rightarrow> double \<Rightarrow> double \<Rightarrow> dvec3" where
  "add_xyz v dx dy dz = Vec3 (x3 v + dx) (y3 v + dy) (z3 v + dz)"

definition ToWGS84 :: "CoordinateTransformer \<Rightarrow> dvec3 \<Rightarrow> log_line list \<times> dvec3" where
  "ToWGS84 t point =
    (if \<not> HasGeoReference t then ([Warn_ToWGS84_without_geo_reference], point)
     else
      (let result = point;
           result = vec3_of4 (mat_mul_vec (axis_transform t) (vec4_of3 result 1.0))
       in if Type (source_cs t) = CoordinateType_ENU then
            (let enu_params = GetENUParams (source_cs t);
                 result = (case enu_params of
                             Some p \<Rightarrow> add_xyz result (offset_x p) (offset_y p) (offset_z p)
                           | None \<Rightarrow> result);
                 ecef = vec3_of4 (mat_mul_vec (enu_to_ecef t) (vec4_of3 result 1.0))
             in ([], Vec3 (geo_origin_lon t) (geo_origin_lat t) (geo_origin_height t + z3 result)))
          else if NeedsOGRTransform (source_cs t) \<and> ogr_transform t \<noteq> None then
            (case GetSourceOrigin (source_cs t) of (origin_x, origin_y, origin_z) \<Rightarrow>
              (let result = add_xyz result origin_x origin_y origin_z;
                   result = the (ogr_transform t) result
               in ([], result)))
          else
            (let result = Vec3 (geo_origin_lon t) (geo_origin_lat t)
                               (geo_origin_height t + z3 result)
             in ([], result))))"

definition ToECEF :: "CoordinateTransformer \<Rightarrow> dvec3 \<Rightarrow> log_line list \<times> dvec3" where
  "ToECEF t point =
    (if \<not> HasGeoReference t then ([Warn_ToECEF_without_geo_reference], point)
     else
      (let result = point;
           result = vec3_of4 (mat_mul_vec (axis_transform t) (vec4_of3 result 1.0))
       in if Type (source_cs t) = CoordinateType_ENU then
            (let enu_params = GetENUParams (source_cs t);
                 result = (case enu_params of
                             Some p \<Rightarrow> add_xyz result (offset_x p) (offset_y p) (offset_z p)
                           | None \<Rightarrow> result)
             in ([], vec3_of4 (mat_mul_vec (enu_to_ecef t) (vec4_of3 result 1.0))))
          else
            (case ToWGS84 t point of (log_wgs84, wgs84) \<Rightarrow>
               (log_wgs84, CartographicToEcef (x3 wgs84) (y3 wgs84) (z3 wgs84)))))"

definition ToLocalENU ::
  "Services \<Rightarrow> CoordinateTransformer \<Rightarrow> dvec3 \<Rightarrow> log_line list \<times> dvec3" where
  "ToLocalENU sv t point =
    (if \<not> HasGeoReference t then ([Warn_ToLocalENU_without_geo_reference], point)
     else
      (let result = point
       in if Type (source_cs t) = CoordinateType_ENU then
            (let enu_params = GetENUParams (source_cs t);
                 result = (case enu_params of
                             Some p \<Rightarrow> add_xyz result (offset_x p) (offset_y p) (offset_z p)
                           | None \<Rightarrow> result);
                 ecef = vec3_of4 (mat_mul_vec (enu_to_ecef t) (vec4_of3 result 1.0));
                 enu = mat_mul_vec (ecef_to_enu t) (vec4_of3 ecef 1.0)
             in ([], Vec3 (x4 enu) (y4 enu) (z4 enu)))
          else if NeedsOGRTransform (source_cs t) \<and> ogr_transform t \<noteq> None then
            (case GetSourceOrigin (source_cs t) of (origin_x, origin_y, origin_z) \<Rightarrow>
              (let result = add_xyz result origin_x origin_y origin_z;
                   result = the (ogr_transform t) result
               in case ApplyGeoidCorrection sv t (y3 result) (x3 result) (z3 result) of
                    (log_geoid, h) \<Rightarrow>
                      (let result = Vec3 (x3 result) (y3 result) h;
                           ecef = CartographicToEcef (x3 result) (y3 result) (z3 result);
                           enu = mat_mul_vec (ecef_to_enu t) (vec4_of3 ecef 1.0)
                       in (log_geoid, Vec3 (x4 enu) (y4 enu) (z4 enu)))))
          else ([], result)))"

definition ConvertUpAxis :: "CoordinateTransformer \<Rightarrow> dvec3 \<Rightarrow> UpAxis \<Rightarrow> dvec3" where
  "ConvertUpAxis t point target_axis =
    (let transform = GetAxisTransformMatrix (GetUpAxis (source_cs t)) target_axis;
         result = mat_mul_vec transform (vec4_of3 point 1.0)
     in Vec3 (x4 result) (y4 result) (z4 result))"


section \<open>Notions used in the statements\<close>

text \<open>
  The ENU-to-ECEF matrix as the specification words it: the WGS84 constants, the angles in
  radians, the prime-vertical radius \<open>N\<close>, the origin in ECEF and the three basis columns.
\<close>

definition spec_EnuToEcef :: "real \<Rightarrow> real \<Rightarrow> real \<Rightarrow> dmat4" where
  "spec_EnuToEcef lam_deg phi_deg h =
    (let a = 6378137.0;
         f = 1 / 298.257223563;
         e2 = f * (2 - f);
         lam = lam_deg * pi / 180;
         phi = phi_deg * pi / 180;
         N = a / sqrt (1 - e2 * (sin phi)\<^sup>2);
         x0 = (N + h) * cos phi * cos lam;
         y0 = (N + h) * cos phi * sin lam;
         z0 = (N * (1 - e2) + h) * sin phi
     in \<lparr>col0 = Vec4 (- sin lam) (cos lam) 0 0,
         col1 = Vec4 (- sin phi * cos lam) (- sin phi * sin lam) (cos phi) 0,
         col2 = Vec4 (cos phi * cos lam) (cos phi * sin lam) (sin phi) 0,
         col3 = Vec4 x0 y0 z0 1\<rparr>)"

text \<open>
  The inversion routine scales a matrix of signed cofactors by the reciprocal of a
  determinant. Both intermediate values are named here, with the same chain of
  sub-determinants, so that the statements can speak about them.
\<close>

definition mat_scale :: "dmat4 \<Rightarrow> double \<Rightarrow> dmat4" where
  "mat_scale m s =
     \<lparr>col0 = vec4_scale (col0 m) s, col1 = vec4_scale (col1 m) s,
      col2 = vec4_scale (col2 m) s, col3 = vec4_scale (col3 m) s\<rparr>"

definition adjugate :: "dmat4 \<Rightarrow> dmat4" where
  "adjugate m =
    (let m00 = x4 (col0 m); m01 = y4 (col0 m); m02 = z4 (col0 m); m03 = w4 (col0 m);
         m10 = x4 (col1 m); m11 = y4 (col1 m); m12 = z4 (col1 m); m13 = w4 (col1 m);
         m20 = x4 (col2 m); m21 = y4 (col2 m); m22 = z4 (col2 m); m23 = w4 (col2 m);
         m30 = x4 (col3 m); m31 = y4 (col3 m); m32 = z4 (col3 m); m33 = w4 (col3 m);
         Coef00 = m22 * m33 - m32 * m23;
         Coef02 = m12 * m33 - m32 * m13;
         Coef03 = m12 * m23 - m22 * m13;
         Coef04 = m21 * m33 - m31 * m23;
         Coef06 = m11 * m33 - m31 * m13;
         Coef07 = m11 * m23 - m21 * m13;
         Coef08 = m21 * m32 - m31 * m22;
         Coef10 = m11 * m32 - m31 * m12;
         Coef11 = m11 * m22 - m21 * m12;
         Coef12 = m20 * m33 - m30 * m23;
         Coef14 = m10 * m33 - m30 * m13;
         Coef15 = m10 * m23 - m20 * m13;
         Coef16 = m20 * m32 - m30 * m22;
         Coef18 = m10 * m32 - m30 * m12;
         Coef19 = m10 * m22 - m20 * m12;
         Coef20 = m20 * m31 - m30 * m21;
         Coef22 = m10 * m31 - m30 * m11;
         Coef23 = m10 * m21 - m20 * m11;
         Fac0 = Vec4 Coef00 Coef00 Coef02 Coef03;
         Fac1 = Vec4 Coef04 Coef04 Coef06 Coef07;
         Fac2 = Vec4 Coef08 Coef08 Coef10 Coef11;
         Fac3 = Vec4 Coef12 Coef12 Coef14 Coef15;
         Fac4 = Vec4 Coef16 Coef16 Coef18 Coef19;
         Fac5 = Vec4 Coef20 Coef20 Coef22 Coef23;
         Vec0 = Vec4 m10 m00 m00 m00;
         Vec1 = Vec4 m11 m01 m01 m01;
         Vec2 = Vec4 m12 m02 m02 m02;
         Vec3' = Vec4 m13 m03 m03 m03;
         Inv0 = vec4_add (vec4_sub (vec4_mul Vec1 Fac0) (vec4_mul Vec2 Fac1)) (vec4_mul Vec3' Fac2);
         Inv1 = vec4_add (vec4_sub (vec4_mul Vec0 Fac0) (vec4_mul Vec2 Fac3)) (vec4_mul Vec3' Fac4);
         Inv2 = vec4_add (vec4_sub (vec4_mul Vec0 Fac1) (vec4_mul Vec1 Fac3)) (vec4_mul Vec3' Fac5);
         Inv3 = vec4_add (vec4_sub (vec4_mul Vec0 Fac2) (vec4_mul Vec1 Fac4)) (vec4_mul Vec2 Fac5);
         SignA = Vec4 1 (- 1) 1 (- 1);
         SignB = Vec4 (- 1) 1 (- 1) 1;
         Inverse = \<lparr>col0 = vec4_mul Inv0 SignA, col1 = vec4_mul Inv1 SignB,
                    col2 = vec4_mul Inv2 SignA, col3 = vec4_mul Inv3 SignB\<rparr>
     in Inverse)"

definition determinant :: "dmat4 \<Rightarrow> double" where
  "determinant m =
    (let m00 = x4 (col0 m); m01 = y4 (col0 m); m02 = z4 (col0 m); m03 = w4 (col0 m);
         m10 = x4 (col1 m); m11 = y4 (col1 m); m12 = z4 (col1 m); m13 = w4 (col1 m);
         m20 = x4 (col2 m); m21 = y4 (col2 m); m22 = z4 (col2 m); m23 = w4 (col2 m);
         m30 = x4 (col3 m); m31 = y4 (col3 m); m32 = z4 (col3 m); m33 = w4 (col3 m);
         Coef00 = m22 * m33 - m32 * m23;
         Coef02 = m12 * m33 - m32 * m13;
         Coef03 = m12 * m23 - m22 * m13;
         Coef04 = m21 * m33 - m31 * m23;
         Coef06 = m11 * m33 - m31 * m13;
         Coef07 = m11 * m23 - m21 * m13;
         Coef08 = m21 * m32 - m31 * m22;
         Coef10 = m11 * m32 - m31 * m12;
         Coef11 = m11 * m22 - m21 * m12;
         Coef12 = m20 * m33 - m30 * m23;
         Coef14 = m10 * m33 - m30 * m13;
         Coef15 = m10 * m23 - m20 * m13;
         Coef16 = m20 * m32 - m30 * m22;
         Coef18 = m10 * m32 - m30 * m12;
         Coef19 = m10 * m22 - m20 * m12;
         Coef20 = m20 * m31 - m30 * m21;
         Coef22 = m10 * m31 - m30 * m11;
         Coef23 = m10 * m21 - m20 * m11;
         Fac0 = Vec4 Coef00 Coef00 Coef02 Coef03;
         Fac1 = Vec4 Coef04 Coef04 Coef06 Coef07;
         Fac2 = Vec4 Coef08 Coef08 Coef10 Coef11;
         Fac3 = Vec4 Coef12 Coef12 Coef14 Coef15;
         Fac4 = Vec4 Coef16 Coef16 Coef18 Coef19;
         Fac5 = Vec4 Coef20 Coef20 Coef22 Coef23;
         Vec0 = Vec4 m10 m00 m00 m00;
         Vec1 = Vec4 m11 m01 m01 m01;
         Vec2 = Vec4 m12 m02 m02 m02;
         Vec3' = Vec4 m13 m03 m03 m03;
         Inv0 = vec4_add (vec4_sub (vec4_mul Vec1 Fac0) (vec4_mul Vec2 Fac1)) (vec4_mul Vec3' Fac2);
         Inv1 = vec4_add (vec4_sub (vec4_mul Vec0 Fac0) (vec4_mul Vec2 Fac3)) (vec4_mul Vec3' Fac4);
         Inv2 = vec4_add (vec4_sub (vec4_mul Vec0 Fac1) (vec4_mul Vec1 Fac3)) (vec4_mul Vec3' Fac5);
         Inv3 = vec4_add (vec4_sub (vec4_mul Vec0 Fac2) (vec4_mul Vec1 Fac4)) (vec4_mul Vec2 Fac5);
         SignA = Vec4 1 (- 1) 1 (- 1);
         SignB = Vec4 (- 1) 1 (- 1) 1;
         Inverse = \<lparr>col0 = vec4_mul Inv0 SignA, col1 = vec4_mul Inv1 SignB,
                    col2 = vec4_mul Inv2 SignA, col3 = vec4_mul Inv3 SignB\<rparr>;
         Row0 = Vec4 (x4 (col0 Inverse)) (x4 (col1 Inverse)) (x4 (col2 Inverse)) (x4 (col3 Inverse));
         Dot0 = vec4_mul (col0 m) Row0;
         Dot1 = (x4 Dot0 + y4 Dot0) + (z4 Dot0 + w4 Dot0)
     in Dot1)"

text \<open>
  Concrete collaborators for the examples: a projection service that can build no handle,
  a geoid service that is not initialized, and one that is initialized and raises every
  height by one metre.
\<close>

definition no_projection ::
  "OGRSpatialReference \<Rightarrow> OGRSpatialReference \<Rightarrow> OGRCoordinateTransformation option" where
  "no_projection inRs outRs = None"

definition keep_height :: "double \<Rightarrow> double \<Rightarrow> double \<Rightarrow> double" where
  "keep_height lat' lon' h = h"


definition services_offline :: Services where
  "services_offline =
     \<lparr>IsInitialized = False, ConvertOrthometricToEllipsoidal = keep_height,
      OGRCreateCoordinateTransformation = no_projection\<rparr>"


text \<open>A projection service that knows EPSG:4326 only, where the projection is the identity.\<close>

definition identity_projection :: OGRCoordinateTransformation where
  "identity_projection v = v"

definition wgs84_projection ::
  "OGRSpatialReference \<Rightarrow> OGRSpatialReference \<Rightarrow> OGRCoordinateTransformation option" where
  "wgs84_projection inRs outRs =
     (if inRs = SRS_EPSG 4326 \<and> outRs = SRS_EPSG 4326 then Some identity_projection else None)"

definition services_wgs84 :: Services where
  "services_wgs84 =
     \<lparr>IsInitialized = False, ConvertOrthometricToEllipsoidal = keep_height,
      OGRCreateCoordinateTransformation = wgs84_projection\<rparr>"





section \<open>Verified properties\<close>

subsection \<open>Matrix algebra\<close>

lemma glm_inverse_adjugate:
  "glm_inverse m = mat_scale (adjugate m) (1 / determinant m)"
  by (simp only: glm_inverse_def adjugate_def determinant_def mat_scale_def Let_def)

lemma dmat4_explicit:
  obtains a0 b0 c0 d0 a1 b1 c1 d1 a2 b2 c2 d2 a3 b3 c3 d3 where
    "m = \<lparr>col0 = Vec4 a0 b0 c0 d0, col1 = Vec4 a1 b1 c1 d1,
      col2 = Vec4 a2 b2 c2 d2, col3 = Vec4 a3 b3 c3 d3\<rparr>"
  by (cases m; cases "col0 m"; cases "col1 m"; cases "col2 m"; cases "col3 m") auto

lemma adjugate_mul_explicit:
  "mat_mul (adjugate \<lparr>col0 = Vec4 a0 b0 c0 d0, col1 = Vec4 a1 b1 c1 d1,
      col2 = Vec4 a2 b2 c2 d2, col3 = Vec4 a3 b3 c3 d3\<rparr>) \<lparr>col0 = Vec4 a0 b0 c0 d0, col1 = Vec4 a1 b1 c1 d1,
      col2 = Vec4 a2 b2 c2 d2, col3 = Vec4 a3 b3 c3 d3\<rparr> = dmat4_diag (determinant \<lparr>col0 = Vec4 a0 b0 c0 d0, col1 = Vec4 a1 b1 c1 d1,
      col2 = Vec4 a2 b2 c2 d2, col3 = Vec4 a3 b3 c3 d3\<rparr>)"
  apply (simp add: mat_mul_def mat_mul_vec_def adjugate_def determinant_def Let_def
    vec4_add_def vec4_sub_def vec4_mul_def vec4_scale_def dmat4_diag_def)
  apply (intro conjI; algebra)
  done

lemma mul_adjugate_explicit:
  "mat_mul \<lparr>col0 = Vec4 a0 b0 c0 d0, col1 = Vec4 a1 b1 c1 d1,
      col2 = Vec4 a2 b2 c2 d2, col3 = Vec4 a3 b3 c3 d3\<rparr> (adjugate \<lparr>col0 = Vec4 a0 b0 c0 d0, col1 = Vec4 a1 b1 c1 d1,
      col2 = Vec4 a2 b2 c2 d2, col3 = Vec4 a3 b3 c3 d3\<rparr>) = dmat4_diag (determinant \<lparr>col0 = Vec4 a0 b0 c0 d0, col1 = Vec4 a1 b1 c1 d1,
      col2 = Vec4 a2 b2 c2 d2, col3 = Vec4 a3 b3 c3 d3\<rparr>)"
  apply (simp add: mat_mul_def mat_mul_vec_def adjugate_def determinant_def Let_def
    vec4_add_def vec4_sub_def vec4_mul_def vec4_scale_def dmat4_diag_def)
  apply (intro conjI; algebra)
  done

lemma adjugate_mul: "mat_mul (adjugate m) m = dmat4_diag (determinant m)"
  by (rule dmat4_explicit [of m]) (simp only: adjugate_mul_explicit)

lemma mul_adjugate: "mat_mul m (adjugate m) = dmat4_diag (determinant m)"
  by (rule dmat4_explicit [of m]) (simp only: mul_adjugate_explicit)

lemma mat_mul_scale_left: "mat_mul (mat_scale a s) b = mat_scale (mat_mul a b) s"
  by (simp add: mat_mul_def mat_scale_def mat_mul_vec_def vec4_add_def vec4_scale_def algebra_simps)

lemma mat_mul_scale_right: "mat_mul a (mat_scale b s) = mat_scale (mat_mul a b) s"
  by (simp add: mat_mul_def mat_scale_def mat_mul_vec_def vec4_add_def vec4_scale_def algebra_simps)

lemma mat_scale_diag: "d \<noteq> 0 \<Longrightarrow> mat_scale (dmat4_diag d) (1 / d) = dmat4_diag 1"
  by (simp add: mat_scale_def dmat4_diag_def vec4_scale_def)

lemma glm_inverse_left:
  "determinant m \<noteq> 0 \<Longrightarrow> mat_mul (glm_inverse m) m = dmat4_diag 1"
  by (simp add: glm_inverse_adjugate mat_mul_scale_left adjugate_mul mat_scale_diag)

lemma glm_inverse_right:
  "determinant m \<noteq> 0 \<Longrightarrow> mat_mul m (glm_inverse m) = dmat4_diag 1"
  by (simp add: glm_inverse_adjugate mat_mul_scale_right mul_adjugate mat_scale_diag)

lemma determinant_CalcEnuToEcefMatrix: "determinant (CalcEnuToEcefMatrix lo la h) = 1"
proof -
  have 1: "sin (lo * pi / 180) * sin (lo * pi / 180) + cos (lo * pi / 180) * cos (lo * pi / 180) = 1"
    using sin_cos_squared_add [of "lo * pi / 180"] by (simp add: power2_eq_square)
  have 2: "sin (la * pi / 180) * sin (la * pi / 180) + cos (la * pi / 180) * cos (la * pi / 180) = 1"
    using sin_cos_squared_add [of "la * pi / 180"] by (simp add: power2_eq_square)
  show ?thesis
    apply (simp add: CalcEnuToEcefMatrix_def determinant_def Let_def vec4_of3_def dmat4_diag_def
       vec4_add_def vec4_sub_def vec4_mul_def vec4_scale_def)
    using 1 2 apply algebra
    done
qed

subsection \<open>What construction establishes\<close>

lemma Init_preserved:
  "source_cs (snd (InitializeWithGeoRef sv g t)) = source_cs t"
  "mode (snd (InitializeWithGeoRef sv g t)) = mode t"
  "geoid_config (snd (InitializeWithGeoRef sv g t)) = geoid_config t"
  by (cases "source_cs t";
      simp add: InitializeWithGeoRef_def CreateOGRTransform_def NeedsOGRTransform_def
        Let_def case_prod_beta split: option.splits)+

lemma Init_matrices:
  "enu_to_ecef (snd (InitializeWithGeoRef sv g t)) =
     CalcEnuToEcefMatrix (geo_origin_lon (snd (InitializeWithGeoRef sv g t)))
       (geo_origin_lat (snd (InitializeWithGeoRef sv g t)))
       (geo_origin_height (snd (InitializeWithGeoRef sv g t)))"
  "ecef_to_enu (snd (InitializeWithGeoRef sv g t)) =
     glm_inverse (enu_to_ecef (snd (InitializeWithGeoRef sv g t)))"
  "axis_transform (snd (InitializeWithGeoRef sv g t)) =
     GetAxisTransformMatrix (GetUpAxis (source_cs t)) Y_UP"
  by (cases "source_cs t";
      simp add: InitializeWithGeoRef_def CreateOGRTransform_def NeedsOGRTransform_def
        Let_def case_prod_beta split: option.splits)+

lemma Init_origin_ENU:
  assumes "source_cs t = CS_ENU e"
  shows "geo_origin_lon (snd (InitializeWithGeoRef sv g t)) = origin_lon e"
    and "geo_origin_lat (snd (InitializeWithGeoRef sv g t)) = origin_lat e"
    and "geo_origin_height (snd (InitializeWithGeoRef sv g t)) = origin_height e"
  using assms by (simp_all add: InitializeWithGeoRef_def Let_def)

lemma Init_origin_LocalCartesian:
  assumes "\<not> NeedsOGRTransform (source_cs t)" "Type (source_cs t) \<noteq> CoordinateType_ENU"
  shows "geo_origin_lon (snd (InitializeWithGeoRef sv g t)) = lon g"
    and "geo_origin_lat (snd (InitializeWithGeoRef sv g t)) = lat g"
    and "geo_origin_height (snd (InitializeWithGeoRef sv g t)) = height g"
  using assms by (simp_all add: InitializeWithGeoRef_def Let_def)

lemma CoordinateTransformer2_eq:
  "CoordinateTransformer2 sv cs g = CoordinateTransformer3 sv cs g GeoidConfig_Disabled"
  by (simp add: CoordinateTransformer2_def CoordinateTransformer3_def)

lemma built_cases:
  assumes "t = snd (CoordinateTransformer2 sv cs g) \<or> t = snd (CoordinateTransformer3 sv cs g gc)"
  obtains gc' where "t = snd (CoordinateTransformer3 sv cs g gc')"
  using assms by (auto simp add: CoordinateTransformer2_eq)

lemma built_fields:
  assumes "t = snd (CoordinateTransformer3 sv cs g gc)"
  shows "source_cs t = cs" and "mode t = WithGeoReference" and "HasGeoReference t"
    and "geoid_config t = gc"
    and "axis_transform t = GetAxisTransformMatrix (GetUpAxis cs) Y_UP"
    and "enu_to_ecef t =
           CalcEnuToEcefMatrix (geo_origin_lon t) (geo_origin_lat t) (geo_origin_height t)"
    and "ecef_to_enu t = glm_inverse (enu_to_ecef t)"
  using assms Init_matrices [of sv g "members_init cs WithGeoReference gc"]
  by (simp_all add: CoordinateTransformer3_def Init_preserved HasGeoReference_def members_init_def)

lemma mat_mul_vec_identity: "mat_mul_vec (dmat4_diag 1) v = v"
  by (cases v) (simp add: mat_mul_vec_def dmat4_diag_def vec4_add_def vec4_scale_def)

lemma mat_mul_vec_assoc: "mat_mul_vec a (mat_mul_vec b v) = mat_mul_vec (mat_mul a b) v"
  by (simp add: mat_mul_def mat_mul_vec_def vec4_add_def vec4_scale_def algebra_simps)

lemma vec3_of4_vec4_of3: "vec3_of4 (vec4_of3 v w) = v"
  by (cases v) (simp add: vec3_of4_def vec4_of3_def)

lemma w4_CalcEnuToEcefMatrix:
  "w4 (mat_mul_vec (CalcEnuToEcefMatrix lo la h) (vec4_of3 v 1)) = 1"
  by (simp add: CalcEnuToEcefMatrix_def Let_def mat_mul_vec_def vec4_add_def vec4_scale_def
      vec4_of3_def)

lemma vec4_of3_vec3_of4: "w4 v = w \<Longrightarrow> vec4_of3 (vec3_of4 v) w = v"
  by (cases v) (simp add: vec3_of4_def vec4_of3_def)

lemma enu_round_trip:
  "mat_mul_vec (glm_inverse (CalcEnuToEcefMatrix lo la h))
     (vec4_of3 (vec3_of4 (mat_mul_vec (CalcEnuToEcefMatrix lo la h) (vec4_of3 v 1))) 1)
   = vec4_of3 v 1"
  by (simp add: vec4_of3_vec3_of4 w4_CalcEnuToEcefMatrix mat_mul_vec_assoc glm_inverse_left
      determinant_CalcEnuToEcefMatrix mat_mul_vec_identity)

lemma ecef_of_origin:
  "mat_mul_vec (glm_inverse (CalcEnuToEcefMatrix lo la h))
     (vec4_of3 (CartographicToEcef lo la h) 1) = Vec4 0 0 0 1"
proof -
  have "vec4_of3 (CartographicToEcef lo la h) 1
      = mat_mul_vec (CalcEnuToEcefMatrix lo la h) (Vec4 0 0 0 1)"
    by (simp add: CalcEnuToEcefMatrix_def CartographicToEcef_def Let_def mat_mul_vec_def
        vec4_add_def vec4_scale_def vec4_of3_def)
  then show ?thesis
    by (simp add: mat_mul_vec_assoc glm_inverse_left determinant_CalcEnuToEcefMatrix
        mat_mul_vec_identity)
qed

lemma built_origin_ENU:
  assumes "t = snd (CoordinateTransformer3 sv (CS_ENU e) g gc)"
  shows "geo_origin_lon t = origin_lon e" "geo_origin_lat t = origin_lat e"
    "geo_origin_height t = origin_height e"
  using assms by (simp_all add: CoordinateTransformer3_def Init_origin_ENU members_init_def)

lemma built_origin_unprojected:
  assumes "t = snd (CoordinateTransformer3 sv cs g gc)"
    and "\<not> NeedsOGRTransform cs" "Type cs \<noteq> CoordinateType_ENU"
  shows "geo_origin_lon t = lon g" "geo_origin_lat t = lat g" "geo_origin_height t = height g"
  using assms
  by (simp_all add: CoordinateTransformer3_def Init_origin_LocalCartesian members_init_def)

lemma built_offline_handle:
  "ogr_transform (snd (CoordinateTransformer3 services_offline cs g gc)) = None"
  by (cases cs;
      simp add: CoordinateTransformer3_def InitializeWithGeoRef_def CreateOGRTransform_def
        NeedsOGRTransform_def members_init_def services_offline_def no_projection_def
        Let_def case_prod_beta)

lemma built_origin_given:
  assumes "NeedsOGRTransform cs" "lon g \<noteq> 0 \<or> lat g \<noteq> 0" "\<not> enabled gc"
  shows "geo_origin_lon (snd (CoordinateTransformer3 sv cs g gc)) = lon g"
    and "geo_origin_lat (snd (CoordinateTransformer3 sv cs g gc)) = lat g"
    and "geo_origin_height (snd (CoordinateTransformer3 sv cs g gc)) = height g"
  using assms
  by (cases cs;
      simp add: CoordinateTransformer3_def InitializeWithGeoRef_def CreateOGRTransform_def
        NeedsOGRTransform_def members_init_def Let_def case_prod_beta split: option.splits)+

lemma built_wgs84_handle:
  "ogr_transform (snd (CoordinateTransformer3 services_wgs84 (EPSG 4326 ox oy oz vd) g gc))
     = Some identity_projection"
  by (simp add: CoordinateTransformer3_def InitializeWithGeoRef_def CreateOGRTransform_def
        NeedsOGRTransform_def members_init_def services_wgs84_def wgs84_projection_def EPSG_def
        Let_def case_prod_beta)

subsection \<open>The three transformations, variant by variant\<close>

lemma axis_identity_unless_LocalCartesian:
  "Type cs \<noteq> CoordinateType_LocalCartesian \<Longrightarrow>
   GetAxisTransformMatrix (GetUpAxis cs) Y_UP = dmat4_diag 1"
  by (cases cs) (simp_all add: GetAxisTransformMatrix_def)

lemma GetAxisTransformMatrix_same: "GetAxisTransformMatrix a a = dmat4_diag 1"
  by (simp add: GetAxisTransformMatrix_def)

lemma point_through_identity: "vec3_of4 (mat_mul_vec (dmat4_diag 1) (vec4_of3 p 1)) = p"
  by (simp add: mat_mul_vec_identity vec3_of4_vec4_of3)

lemma ToLocalENU_ENU:
  assumes "t = snd (CoordinateTransformer3 sv (CS_ENU e) g gc)"
  shows "ToLocalENU sv' t p =
     ([], vec3_of4 (mat_mul_vec (ecef_to_enu t) (vec4_of3 (vec3_of4 (mat_mul_vec (enu_to_ecef t)
            (vec4_of3 (add_xyz p (offset_x e) (offset_y e) (offset_z e)) 1))) 1)))"
  using built_fields(1,3) [OF assms]
  by (simp add: ToLocalENU_def Let_def vec3_of4_def)

lemma ToECEF_ENU:
  assumes "t = snd (CoordinateTransformer3 sv (CS_ENU e) g gc)"
  shows "ToECEF t p =
     ([], vec3_of4 (mat_mul_vec (enu_to_ecef t)
            (vec4_of3 (add_xyz p (offset_x e) (offset_y e) (offset_z e)) 1)))"
  using built_fields(1,3,5) [OF assms]
  by (simp add: ToECEF_def Let_def GetAxisTransformMatrix_same point_through_identity)

lemma ToWGS84_ENU:
  assumes "t = snd (CoordinateTransformer3 sv (CS_ENU e) g gc)"
  shows "ToWGS84 t p =
     ([], Vec3 (origin_lon e) (origin_lat e) (origin_height e + (z3 p + offset_z e)))"
proof -
  have o: "geo_origin_lon t = origin_lon e" "geo_origin_lat t = origin_lat e"
    "geo_origin_height t = origin_height e"
    using assms
    by (simp_all add: CoordinateTransformer3_def Init_origin_ENU members_init_def)
  show ?thesis
    using built_fields(1,3,5) [OF assms] o
    by (simp add: ToWGS84_def Let_def GetAxisTransformMatrix_same
        point_through_identity add_xyz_def)
qed

lemma ToWGS84_fallback:
  assumes "t = snd (CoordinateTransformer3 sv cs g gc)"
    and "Type cs \<noteq> CoordinateType_ENU" "Type cs \<noteq> CoordinateType_LocalCartesian"
    and "\<not> (NeedsOGRTransform cs \<and> ogr_transform t \<noteq> None)"
  shows "ToWGS84 t p =
     ([], Vec3 (geo_origin_lon t) (geo_origin_lat t) (geo_origin_height t + z3 p))"
  using built_fields(1,3,5) [OF assms(1)] assms(2-)
  by (auto simp add: ToWGS84_def Let_def axis_identity_unless_LocalCartesian
      point_through_identity)

lemma ToWGS84_projected:
  assumes "t = snd (CoordinateTransformer3 sv cs g gc)"
    and "NeedsOGRTransform cs" "ogr_transform t = Some ct"
  shows "ToWGS84 t p =
     ([], ct (add_xyz p (fst (GetSourceOrigin cs)) (fst (snd (GetSourceOrigin cs)))
                       (snd (snd (GetSourceOrigin cs)))))"
proof -
  have ty: "Type cs \<noteq> CoordinateType_ENU" "Type cs \<noteq> CoordinateType_LocalCartesian"
    using assms(2) by (auto simp: NeedsOGRTransform_def)
  show ?thesis
    using built_fields(1,3,5) [OF assms(1)] assms(2-) ty
    by (simp add: ToWGS84_def Let_def axis_identity_unless_LocalCartesian point_through_identity
        case_prod_beta)
qed

lemma ToLocalENU_projected_uncorrected:
  assumes "t = snd (CoordinateTransformer3 sv cs g gc)"
    and "NeedsOGRTransform cs" "ogr_transform t = Some ct"
    and "\<not> ShouldApplyGeoidCorrection sv' t"
  shows "snd (ToLocalENU sv' t p) =
     vec3_of4 (mat_mul_vec (ecef_to_enu t) (vec4_of3 (snd (ToECEF t p)) 1))"
proof -
  have ty: "Type cs \<noteq> CoordinateType_ENU" "Type cs \<noteq> CoordinateType_LocalCartesian"
    using assms(2) by (auto simp: NeedsOGRTransform_def)
  have e: "snd (ToECEF t p) =
      (let w = snd (ToWGS84 t p) in CartographicToEcef (x3 w) (y3 w) (z3 w))"
    using built_fields(1,3) [OF assms(1)] ty
    by (simp add: ToECEF_def Let_def case_prod_beta)
  show ?thesis
    unfolding e ToWGS84_projected [OF assms(1-3)]
    using built_fields(1,3) [OF assms(1)] assms(2-) ty
    by (simp add: ToLocalENU_def Let_def case_prod_beta ApplyGeoidCorrection_def vec3_of4_def)
qed

lemma ToLocalENU_unprojected:
  assumes "t = snd (CoordinateTransformer3 sv cs g gc)"
    and "Type cs \<noteq> CoordinateType_ENU"
    and "\<not> (NeedsOGRTransform cs \<and> ogr_transform t \<noteq> None)"
  shows "ToLocalENU sv' t p = ([], p)"
  using built_fields(1,3) [OF assms(1)] assms(2-)
  by (auto simp add: ToLocalENU_def Let_def)









subsection \<open>Up-axis conversion\<close>

text \<open>
  C1. The claim: on a \<open>LocalCartesian\<close> source with \<open>up_axis = Z_UP\<close>, \<open>ConvertUpAxis\<close> to
  \<open>Y_UP\<close> maps \<open>(x, y, z)\<close> to \<open>(x, z, -y)\<close>, so \<open>(1, 2, 3)\<close> to \<open>(1, 3, -2)\<close>. The unit test
  \<^verbatim>\<open>test_axis_transform\<close> asserts the same, and so does the comment inside the branch.
  The sixteen scalars of the branch are written row by row, but the matrix constructor
  reads them column by column, so the code applies the transposed rotation: it returns
  \<open>(1, -3, 2)\<close>.
\<close>

theorem C1_code_at_Z_UP_point:
  "ConvertUpAxis (CoordinateTransformer1 (LocalCartesian Z_UP RightHanded)) (Vec3 1 2 3) Y_UP
     = Vec3 1 (- 3) 2"
  by (simp add: ConvertUpAxis_def CoordinateTransformer1_def members_init_def LocalCartesian_def
      GetAxisTransformMatrix_def dmat4_of_scalars_def mat_mul_vec_def vec4_of3_def
      vec4_add_def vec4_scale_def)

subsection \<open>The ENU-to-ECEF matrix\<close>

text \<open>
  C4. For every longitude, latitude (in degrees) and height, \<open>CalcEnuToEcefMatrix\<close> is the
  column-major matrix \<open>[E | Nhat | U | (x0, y0, z0, 1)]\<close> of the canonical formula.
\<close>

theorem C4_CalcEnuToEcefMatrix_formula:
  "CalcEnuToEcefMatrix lon_deg lat_deg h = spec_EnuToEcef lon_deg lat_deg h"
  by (simp add: CalcEnuToEcefMatrix_def spec_EnuToEcef_def Let_def vec4_of3_def dmat4_diag_def
      WGS84_A_def WGS84_E2_def WGS84_F_def power2_eq_square)

text \<open>
  C10. The translation column of \<open>CalcEnuToEcefMatrix\<close> is the point that
  \<open>CartographicToEcef\<close> returns for the same arguments, with homogeneous coordinate 1.
\<close>

theorem C10_translation_is_CartographicToEcef:
  "col3 (CalcEnuToEcefMatrix lon_deg lat_deg h)
     = vec4_of3 (CartographicToEcef lon_deg lat_deg h) 1"
  by (simp add: CalcEnuToEcefMatrix_def CartographicToEcef_def Let_def vec4_of3_def)

subsection \<open>Transformers without geo-reference\<close>

text \<open>
  C6. A transformer built by the single-argument constructor has mode \<open>None\<close>; each of
  \<open>ToWGS84\<close>, \<open>ToECEF\<close> and \<open>ToLocalENU\<close> then prints its warning and returns the input
  point unchanged. The functions are total: no call throws or aborts.
\<close>

theorem C6_mode_None_pass_through:
  "ToWGS84 (CoordinateTransformer1 cs) p = ([Warn_ToWGS84_without_geo_reference], p) \<and>
   ToECEF (CoordinateTransformer1 cs) p = ([Warn_ToECEF_without_geo_reference], p) \<and>
   ToLocalENU sv (CoordinateTransformer1 cs) p = ([Warn_ToLocalENU_without_geo_reference], p)"
  by (simp add: ToWGS84_def ToECEF_def ToLocalENU_def HasGeoReference_def
      CoordinateTransformer1_def members_init_def)

subsection \<open>ENU sources\<close>

text \<open>
  C7. For a transformer built with a geo-reference from an ENU system with offset
  \<open>(ox, oy, oz)\<close>, \<open>ToLocalENU p\<close> is \<open>ecef_to_enu \<cdot> (enu_to_ecef \<cdot> (p + offset))\<close>. Over
  the reals the two cached matrices cancel, so the result is \<open>p + offset\<close>; for the zero
  vector it is the offset itself.
\<close>

theorem C7_ENU_ToLocalENU:
  assumes "t = snd (CoordinateTransformer2 sv (ENU lo la h ox oy oz) geo_ref) \<or>
           t = snd (CoordinateTransformer3 sv (ENU lo la h ox oy oz) geo_ref gc)"
  shows "ToLocalENU sv' t p =
           ([], vec3_of4 (mat_mul_vec (ecef_to_enu t)
                  (vec4_of3 (vec3_of4 (mat_mul_vec (enu_to_ecef t)
                     (vec4_of3 (add_xyz p ox oy oz) 1))) 1)))
       \<and> snd (ToLocalENU sv' t p) = add_xyz p ox oy oz
       \<and> snd (ToLocalENU sv' t (Vec3 0 0 0)) =
           vec3_of4 (mat_mul_vec (ecef_to_enu t)
              (vec4_of3 (vec3_of4 (mat_mul_vec (enu_to_ecef t) (vec4_of3 (Vec3 ox oy oz) 1))) 1))
       \<and> snd (ToLocalENU sv' t (Vec3 0 0 0)) = Vec3 ox oy oz"
proof -
  let ?e = "\<lparr>origin_lon = lo, origin_lat = la, origin_height = h,
             offset_x = ox, offset_y = oy, offset_z = oz\<rparr>"
  from assms obtain gc' where "t = snd (CoordinateTransformer3 sv (ENU lo la h ox oy oz) geo_ref gc')"
    by (rule built_cases)
  then have t: "t = snd (CoordinateTransformer3 sv (CS_ENU ?e) geo_ref gc')"
    by (simp add: ENU_def)
  have step: "ToLocalENU sv' t q =
           ([], vec3_of4 (mat_mul_vec (ecef_to_enu t)
                  (vec4_of3 (vec3_of4 (mat_mul_vec (enu_to_ecef t)
                     (vec4_of3 (add_xyz q ox oy oz) 1))) 1)))" for q
    using ToLocalENU_ENU [OF t, of sv' q] by simp
  have round: "snd (ToLocalENU sv' t q) = add_xyz q ox oy oz" for q
    unfolding step
    by (simp add: built_fields(6,7) [OF t] enu_round_trip vec3_of4_vec4_of3)
  show ?thesis
    using step [of p] round [of p] step [of "Vec3 0 0 0"] round [of "Vec3 0 0 0"]
    by (simp add: add_xyz_def)
qed

text \<open>The survey example of the unit tests: origin (117, 35, 0), offset (-958, -993, 69).\<close>

theorem C7_ENU_ToLocalENU_witness:
  "snd (ToLocalENU services_offline
         (snd (CoordinateTransformer3 services_offline (ENU 117 35 0 (- 958) (- 993) 69)
                (FromDegrees 0 0 0 Ellipsoidal) GeoidConfig_Disabled))
         (Vec3 0 0 0)) = Vec3 (- 958) (- 993) 69"
  using C7_ENU_ToLocalENU [OF disjI2 [OF refl], where sv = services_offline and sv' = services_offline
      and lo = 117 and la = 35 and h = 0 and ox = "- 958" and oy = "- 993" and oz = 69
      and geo_ref = "FromDegrees 0 0 0 Ellipsoidal" and gc = GeoidConfig_Disabled
      and p = "Vec3 0 0 0"]
  by blast

text \<open>
  C8. The claim: for an ENU source \<open>ToWGS84 p\<close> is
  \<open>(geo_origin_lon, geo_origin_lat, geo_origin_height + p.z)\<close>. The code adds the SRSOrigin
  offset to the point before it reads the height, so the third component is
  \<open>geo_origin_height + p.z + offset_z\<close>; the origin is the one built into the ENU system.
\<close>

theorem C8_ENU_ToWGS84:
  assumes "t = snd (CoordinateTransformer2 sv (ENU lo la h ox oy oz) geo_ref) \<or>
           t = snd (CoordinateTransformer3 sv (ENU lo la h ox oy oz) geo_ref gc)"
  shows "geo_origin_lon t = lo \<and> geo_origin_lat t = la \<and> geo_origin_height t = h
       \<and> ToWGS84 t p =
           ([], Vec3 (geo_origin_lon t) (geo_origin_lat t) (geo_origin_height t + (z3 p + oz)))"
proof -
  let ?e = "\<lparr>origin_lon = lo, origin_lat = la, origin_height = h,
             offset_x = ox, offset_y = oy, offset_z = oz\<rparr>"
  from assms obtain gc' where "t = snd (CoordinateTransformer3 sv (ENU lo la h ox oy oz) geo_ref gc')"
    by (rule built_cases)
  then have t: "t = snd (CoordinateTransformer3 sv (CS_ENU ?e) geo_ref gc')"
    by (simp add: ENU_def)
  show ?thesis
    using built_origin_ENU [OF t] ToWGS84_ENU [OF t, of p] by simp
qed

text \<open>At the survey example the zero vector is reported at height 69, the offset.\<close>

theorem C8_ENU_ToWGS84_witness:
  "ToWGS84 (snd (CoordinateTransformer3 services_offline (ENU 117 35 0 (- 958) (- 993) 69)
                  (FromDegrees 0 0 0 Ellipsoidal) GeoidConfig_Disabled))
      (Vec3 0 0 0) = ([], Vec3 117 35 69)"
  using C8_ENU_ToWGS84 [OF disjI2 [OF refl], where sv = services_offline
      and lo = 117 and la = 35 and h = 0 and ox = "- 958" and oy = "- 993" and oz = 69
      and geo_ref = "FromDegrees 0 0 0 Ellipsoidal" and gc = GeoidConfig_Disabled
      and p = "Vec3 0 0 0"]
  by simp

text \<open>
  The claim as stated fails there: it promises height \<open>0 + 0\<close> for the zero vector.
\<close>

theorem C8_height_plus_input_z_counterexample:
  "snd (ToWGS84 (snd (CoordinateTransformer2 services_offline (ENU 117 35 0 (- 958) (- 993) 69)
                        (FromDegrees 0 0 0 Ellipsoidal)))
         (Vec3 0 0 0))
   \<noteq> Vec3 (geo_origin_lon (snd (CoordinateTransformer2 services_offline
                (ENU 117 35 0 (- 958) (- 993) 69) (FromDegrees 0 0 0 Ellipsoidal))))
          (geo_origin_lat (snd (CoordinateTransformer2 services_offline
                (ENU 117 35 0 (- 958) (- 993) 69) (FromDegrees 0 0 0 Ellipsoidal))))
          (geo_origin_height (snd (CoordinateTransformer2 services_offline
                (ENU 117 35 0 (- 958) (- 993) 69) (FromDegrees 0 0 0 Ellipsoidal)))
             + z3 (Vec3 0 0 0))"
  by (simp add: CoordinateTransformer2_eq ENU_def ToWGS84_ENU [OF refl] built_origin_ENU [OF refl])

subsection \<open>The cached matrix pair\<close>

text \<open>
  C9. For every transformer built by one of the two constructors that take a
  geo-reference, whatever the source system and the resolved origin, \<open>ecef_to_enu\<close> is the
  result of the 4x4 inversion of \<open>enu_to_ecef\<close>, and it is a two-sided inverse: both
  products are the identity.
\<close>

theorem C9_ecef_to_enu_is_inverse:
  assumes "t = snd (CoordinateTransformer2 sv cs geo_ref) \<or>
           t = snd (CoordinateTransformer3 sv cs geo_ref gc)"
  shows "ecef_to_enu t = glm_inverse (enu_to_ecef t)
       \<and> mat_mul (ecef_to_enu t) (enu_to_ecef t) = dmat4_diag 1
       \<and> mat_mul (enu_to_ecef t) (ecef_to_enu t) = dmat4_diag 1"
proof -
  from assms obtain gc' where t: "t = snd (CoordinateTransformer3 sv cs geo_ref gc')"
    by (rule built_cases)
  show ?thesis
    using built_fields(6,7) [OF t]
    by (simp add: glm_inverse_left glm_inverse_right determinant_CalcEnuToEcefMatrix)
qed

text \<open>A Z-up local frame anchored at longitude 120, latitude 30, height 100.\<close>

theorem C9_ecef_to_enu_is_inverse_witness:
  "mat_mul
     (ecef_to_enu (snd (CoordinateTransformer3 services_offline
        (LocalCartesian Z_UP RightHanded) (FromDegrees 120 30 100 Ellipsoidal) GeoidConfig_Disabled)))
     (enu_to_ecef (snd (CoordinateTransformer3 services_offline
        (LocalCartesian Z_UP RightHanded) (FromDegrees 120 30 100 Ellipsoidal) GeoidConfig_Disabled)))
   = dmat4_diag 1"
  using C9_ecef_to_enu_is_inverse [OF disjI2 [OF refl], where sv = services_offline
      and cs = "LocalCartesian Z_UP RightHanded"
      and geo_ref = "FromDegrees 120 30 100 Ellipsoidal" and gc = GeoidConfig_Disabled]
  by blast

subsection \<open>Geoid policy\<close>

lemma ShouldApplyGeoidCorrection_iff:
  "ShouldApplyGeoidCorrection sv t =
     (enabled (geoid_config t) \<and> IsInitialized sv \<and> NeedsOGRTransform (source_cs t) \<and>
      (GetVerticalDatum (source_cs t) = Orthometric \<or> GetVerticalDatum (source_cs t) = Unknown))"
  by (cases "source_cs t")
     (auto simp add: ShouldApplyGeoidCorrection_def NeedsOGRTransform_def Let_def)




subsection \<open>Projected sources without a handle\<close>

text \<open>
  C5. The claim: when the projection handle of an EPSG or WKT source could not be created,
  \<open>ToLocalENU\<close>, \<open>ToECEF\<close> and \<open>ToWGS84\<close> all return their input. In the code only
  \<open>ToLocalENU\<close> does. \<open>ToWGS84\<close> falls through to the branch that reports the geographic
  origin, with the height raised by the z coordinate of the point, and \<open>ToECEF\<close> converts
  that triplet to ECEF. No call fails and none prints.
\<close>

theorem C5_failed_handle:
  assumes "t = snd (CoordinateTransformer2 sv cs geo_ref) \<or>
           t = snd (CoordinateTransformer3 sv cs geo_ref gc)"
    and "NeedsOGRTransform cs" and "ogr_transform t = None"
  shows "ToLocalENU sv' t p = ([], p)
       \<and> ToWGS84 t p =
           ([], Vec3 (geo_origin_lon t) (geo_origin_lat t) (geo_origin_height t + z3 p))
       \<and> ToECEF t p =
           ([], CartographicToEcef (geo_origin_lon t) (geo_origin_lat t)
                  (geo_origin_height t + z3 p))"
proof -
  from assms(1) obtain gc' where t: "t = snd (CoordinateTransformer3 sv cs geo_ref gc')"
    by (rule built_cases)
  have ty: "Type cs \<noteq> CoordinateType_ENU" "Type cs \<noteq> CoordinateType_LocalCartesian"
    using assms(2) by (auto simp: NeedsOGRTransform_def)
  have w: "ToWGS84 t p =
      ([], Vec3 (geo_origin_lon t) (geo_origin_lat t) (geo_origin_height t + z3 p))"
    using ToWGS84_fallback [OF t ty] assms(3) by simp
  have e: "ToECEF t p =
      ([], CartographicToEcef (geo_origin_lon t) (geo_origin_lat t)
             (geo_origin_height t + z3 p))"
    using built_fields(1,3) [OF t] ty by (simp add: ToECEF_def Let_def w)
  have l: "ToLocalENU sv' t p = ([], p)"
    using ToLocalENU_unprojected [OF t ty(1)] assms(3) by simp
  show ?thesis using w e l by simp
qed

text \<open>An EPSG:4545 source anchored at (117, 35, 0) while no projection can be built.\<close>

theorem C5_failed_handle_witness:
  "ToLocalENU services_offline
     (snd (CoordinateTransformer3 services_offline (EPSG 4545 500000 3000000 0 Unknown)
        (FromDegrees 117 35 0 Ellipsoidal) GeoidConfig_Disabled))
     (Vec3 1 2 3) = ([], Vec3 1 2 3)"
proof -
  have n: "NeedsOGRTransform (EPSG 4545 500000 3000000 0 Unknown)"
    by (simp add: NeedsOGRTransform_def EPSG_def)
  show ?thesis
    using C5_failed_handle [OF disjI2 [OF refl] n built_offline_handle, where sv' = services_offline
        and p = "Vec3 1 2 3"]
    by blast
qed

text \<open>
  For the same transformer \<open>ToWGS84\<close> maps \<open>(1, 2, 3)\<close> to \<open>(117, 35, 3)\<close>, not to itself.
\<close>

theorem C5_ToWGS84_not_pass_through_counterexample:
  "ogr_transform
     (snd (CoordinateTransformer2 services_offline (EPSG 4545 500000 3000000 0 Unknown)
        (FromDegrees 117 35 0 Ellipsoidal))) = None
   \<and> snd (ToWGS84
       (snd (CoordinateTransformer2 services_offline (EPSG 4545 500000 3000000 0 Unknown)
          (FromDegrees 117 35 0 Ellipsoidal)))
       (Vec3 1 2 3)) \<noteq> Vec3 1 2 3"
proof -
  let ?cs = "EPSG 4545 500000 3000000 0 Unknown"
  let ?g = "FromDegrees 117 35 0 Ellipsoidal"
  let ?t = "snd (CoordinateTransformer3 services_offline ?cs ?g GeoidConfig_Disabled)"
  have n: "NeedsOGRTransform ?cs" and ty: "Type ?cs \<noteq> CoordinateType_ENU"
    "Type ?cs \<noteq> CoordinateType_LocalCartesian"
    by (simp_all add: NeedsOGRTransform_def EPSG_def)
  have o: "geo_origin_lon ?t = 117"
    using built_origin_given(1) [OF n, of ?g GeoidConfig_Disabled services_offline]
    by (simp add: FromDegrees_def GeoidConfig_Disabled_def GeoidConfig_default_def)
  have "ToWGS84 ?t (Vec3 1 2 3) =
      ([], Vec3 (geo_origin_lon ?t) (geo_origin_lat ?t) (geo_origin_height ?t + z3 (Vec3 1 2 3)))"
    using ToWGS84_fallback [OF refl ty] by (simp add: built_offline_handle)
  then show ?thesis
    by (simp add: CoordinateTransformer2_eq built_offline_handle o)
qed

subsection \<open>\<open>ToLocalENU\<close> against \<open>ToECEF\<close>\<close>

text \<open>
  C2. The claim: for every source variant \<open>ToLocalENU p = ecef_to_enu \<cdot> ToECEF p\<close>. The code
  has this for ENU sources, and for EPSG and WKT sources that have a projection handle
  as long as no geoid correction applies (only \<open>ToLocalENU\<close> corrects the height). For a
  LocalCartesian source \<open>ToLocalENU\<close> returns the point unchanged, without any ECEF step.
\<close>

theorem C2_ToLocalENU_and_ToECEF:
  assumes "t = snd (CoordinateTransformer2 sv cs geo_ref) \<or>
           t = snd (CoordinateTransformer3 sv cs geo_ref gc)"
  shows "(Type cs = CoordinateType_ENU \<or>
          (NeedsOGRTransform cs \<and> ogr_transform t \<noteq> None \<and>
           \<not> ShouldApplyGeoidCorrection sv' t) \<longrightarrow>
          snd (ToLocalENU sv' t p) =
            vec3_of4 (mat_mul_vec (ecef_to_enu t) (vec4_of3 (snd (ToECEF t p)) 1)))
       \<and> (Type cs = CoordinateType_LocalCartesian \<longrightarrow> snd (ToLocalENU sv' t p) = p)"
proof -
  from assms obtain gc' where t: "t = snd (CoordinateTransformer3 sv cs geo_ref gc')"
    by (rule built_cases)
  show ?thesis
  proof (intro conjI impI)
    assume h: "Type cs = CoordinateType_ENU \<or>
            (NeedsOGRTransform cs \<and> ogr_transform t \<noteq> None \<and>
             \<not> ShouldApplyGeoidCorrection sv' t)"
    show "snd (ToLocalENU sv' t p) =
              vec3_of4 (mat_mul_vec (ecef_to_enu t) (vec4_of3 (snd (ToECEF t p)) 1))"
    proof (cases "Type cs = CoordinateType_ENU")
      case True
      then obtain e where cs: "cs = CS_ENU e" by (cases cs) simp_all
      have te: "t = snd (CoordinateTransformer3 sv (CS_ENU e) geo_ref gc')"
        using t cs by simp
      show ?thesis
        by (simp add: ToLocalENU_ENU [OF te] ToECEF_ENU [OF te])
    next
      case False
      with h obtain ct where "NeedsOGRTransform cs" "ogr_transform t = Some ct"
        "\<not> ShouldApplyGeoidCorrection sv' t"
        by auto
      then show ?thesis
        using ToLocalENU_projected_uncorrected [OF t] by simp
    qed
  next
    assume "Type cs = CoordinateType_LocalCartesian"
    then have "Type cs \<noteq> CoordinateType_ENU" "\<not> NeedsOGRTransform cs"
      by (simp_all add: NeedsOGRTransform_def)
    then show "snd (ToLocalENU sv' t p) = p"
      using ToLocalENU_unprojected [OF t, of sv' p] by simp
  qed
qed

text \<open>
  Both cases of the equation at the point \<open>(1, 2, 3)\<close>: the survey example, and an EPSG:4326
  source whose projection handle exists while the geoid is disabled.
\<close>

theorem C2_ToLocalENU_and_ToECEF_witness:
  "snd (ToLocalENU services_offline
          (snd (CoordinateTransformer3 services_offline (ENU 117 35 0 (- 958) (- 993) 69)
                 (FromDegrees 0 0 0 Ellipsoidal) GeoidConfig_Disabled))
          (Vec3 1 2 3))
   = vec3_of4 (mat_mul_vec
       (ecef_to_enu
          (snd (CoordinateTransformer3 services_offline (ENU 117 35 0 (- 958) (- 993) 69)
                 (FromDegrees 0 0 0 Ellipsoidal) GeoidConfig_Disabled)))
       (vec4_of3
          (snd (ToECEF
             (snd (CoordinateTransformer3 services_offline (ENU 117 35 0 (- 958) (- 993) 69)
                    (FromDegrees 0 0 0 Ellipsoidal) GeoidConfig_Disabled))
             (Vec3 1 2 3))) 1))
   \<and> snd (ToLocalENU services_wgs84
          (snd (CoordinateTransformer3 services_wgs84 (EPSG 4326 117 35 0 Ellipsoidal)
                 (FromDegrees 0 0 0 Ellipsoidal) GeoidConfig_Disabled))
          (Vec3 1 2 3))
   = vec3_of4 (mat_mul_vec
       (ecef_to_enu
          (snd (CoordinateTransformer3 services_wgs84 (EPSG 4326 117 35 0 Ellipsoidal)
                 (FromDegrees 0 0 0 Ellipsoidal) GeoidConfig_Disabled)))
       (vec4_of3
          (snd (ToECEF
             (snd (CoordinateTransformer3 services_wgs84 (EPSG 4326 117 35 0 Ellipsoidal)
                    (FromDegrees 0 0 0 Ellipsoidal) GeoidConfig_Disabled))
             (Vec3 1 2 3))) 1))"
proof -
  have ty: "Type (ENU 117 35 0 (- 958) (- 993) 69) = CoordinateType_ENU"
    by (simp add: ENU_def)
  have n: "NeedsOGRTransform (EPSG 4326 117 35 0 Ellipsoidal)"
    by (simp add: NeedsOGRTransform_def EPSG_def)
  have s: "\<not> ShouldApplyGeoidCorrection services_wgs84
      (snd (CoordinateTransformer3 services_wgs84 (EPSG 4326 117 35 0 Ellipsoidal)
             (FromDegrees 0 0 0 Ellipsoidal) GeoidConfig_Disabled))"
    by (simp add: ShouldApplyGeoidCorrection_iff services_wgs84_def)
  show ?thesis
    using C2_ToLocalENU_and_ToECEF [OF disjI2 [OF refl], where cs = "ENU 117 35 0 (- 958) (- 993) 69"
        and sv = services_offline and sv' = services_offline
        and geo_ref = "FromDegrees 0 0 0 Ellipsoidal" and gc = GeoidConfig_Disabled
        and p = "Vec3 1 2 3"] ty
      C2_ToLocalENU_and_ToECEF [OF disjI2 [OF refl], where cs = "EPSG 4326 117 35 0 Ellipsoidal"
        and sv = services_wgs84 and sv' = services_wgs84
        and geo_ref = "FromDegrees 0 0 0 Ellipsoidal" and gc = GeoidConfig_Disabled
        and p = "Vec3 1 2 3"] n s built_wgs84_handle [of 117 35 0 Ellipsoidal
          "FromDegrees 0 0 0 Ellipsoidal" GeoidConfig_Disabled]
    by (simp del: GetSourceOrigin.simps)
qed

text \<open>
  A Y-up local frame anchored at (120, 30, 100): \<open>ToLocalENU\<close> keeps \<open>(1, 0, 0)\<close>, while
  \<open>ToECEF\<close> yields the ECEF position of the anchor, which \<open>ecef_to_enu\<close> maps to the
  origin.
\<close>

theorem C2_LocalCartesian_counterexample:
  "snd (ToLocalENU services_offline
          (snd (CoordinateTransformer2 services_offline (LocalCartesian Y_UP RightHanded)
                 (FromDegrees 120 30 100 Ellipsoidal)))
          (Vec3 1 0 0))
   \<noteq> vec3_of4 (mat_mul_vec
       (ecef_to_enu
          (snd (CoordinateTransformer2 services_offline (LocalCartesian Y_UP RightHanded)
                 (FromDegrees 120 30 100 Ellipsoidal))))
       (vec4_of3
          (snd (ToECEF
             (snd (CoordinateTransformer2 services_offline (LocalCartesian Y_UP RightHanded)
                    (FromDegrees 120 30 100 Ellipsoidal)))
             (Vec3 1 0 0))) 1))"
proof -
  let ?cs = "LocalCartesian Y_UP RightHanded"
  let ?g = "FromDegrees 120 30 100 Ellipsoidal"
  let ?t = "snd (CoordinateTransformer3 services_offline ?cs ?g GeoidConfig_Disabled)"
  have ty: "Type ?cs \<noteq> CoordinateType_ENU" "\<not> NeedsOGRTransform ?cs"
    by (simp_all add: LocalCartesian_def NeedsOGRTransform_def)
  have o: "geo_origin_lon ?t = 120" "geo_origin_lat ?t = 30" "geo_origin_height ?t = 100"
    using built_origin_unprojected [OF refl ty(2,1), of services_offline ?g GeoidConfig_Disabled]
    by (simp_all add: FromDegrees_def)
  have l: "snd (ToLocalENU services_offline ?t (Vec3 1 0 0)) = Vec3 1 0 0"
    using ToLocalENU_unprojected [OF refl ty(1), of services_offline ?g GeoidConfig_Disabled]
      ty(2)
    by simp
  have ax: "axis_transform ?t = dmat4_diag 1"
    using built_fields(5) [OF refl, of services_offline ?cs ?g GeoidConfig_Disabled]
    by (simp add: LocalCartesian_def GetAxisTransformMatrix_same)
  have w: "ToWGS84 ?t (Vec3 1 0 0) = ([], Vec3 120 30 100)"
    using built_fields(1,3) [OF refl, of services_offline ?cs ?g GeoidConfig_Disabled] ty ax o
    by (simp add: ToWGS84_def Let_def point_through_identity LocalCartesian_def)
  have e: "snd (ToECEF ?t (Vec3 1 0 0)) = CartographicToEcef 120 30 100"
    using built_fields(1,3) [OF refl, of services_offline ?cs ?g GeoidConfig_Disabled] ty
    by (simp add: ToECEF_def Let_def w)
  have r: "vec3_of4 (mat_mul_vec (ecef_to_enu ?t) (vec4_of3 (snd (ToECEF ?t (Vec3 1 0 0))) 1))
      = Vec3 0 0 0"
    using built_fields(6,7) [OF refl, of services_offline ?cs ?g GeoidConfig_Disabled]
    by (simp add: e o ecef_of_origin vec3_of4_def)
  show ?thesis
    unfolding CoordinateTransformer2_eq l r by simp
qed

end
